theory Spec2Isabelle
  imports Complex_Main "HOL-Library.Multiset" "HOL-Library.Sublist" "HOL-Library.Char_ord"
    "HOL-Library.List_Lexorder"
begin

section \<open>Values of the weekly KPI script\<close>

text \<open>
  The script \<^verbatim>\<open>relief_weekly_streamlit_app_final.py\<close> reads three uploaded tables and
  prints summary tables one after the other. Monetary columns are float64 in pandas; they
  are modelled by exact rationals. A missing cell (NaN, NaT, None) is \<open>None\<close>.
\<close>

type_synonym amount = rat


record date =
  year :: int
  month :: int
  day :: int

text \<open>
  One row of the 371.05 report after the preprocessing of lines 96 to 104: the date
  columns went through \<^verbatim>\<open>pd.to_datetime(errors='coerce')\<close> (unparseable is \<open>None\<close>) and
  the numeric columns through \<^verbatim>\<open>pd.to_numeric(errors='coerce').fillna(0.0)\<close>.
\<close>

record claim_line =
  claim_no :: "string option"
  rendering_provider :: "string option"
  primary_payer :: "string option"
  claim_status_code :: "string option"
  claim_status_group_name :: "string option"
  start_date_of_service :: "date option"
  claim_date :: "date option"
  billed_charge :: amount
  fee_schedule_allowed_fee :: amount
  total_payment :: amount
  payer_payment :: amount
  contractual_adjustment :: amount
  total_balance :: amount

section \<open>Claim deduplication (line 108)\<close>

text \<open>
  \<^verbatim>\<open>df.drop_duplicates(subset=[k])\<close> keeps, in the original order, the first row of every
  key value; pandas treats two missing keys as equal, as \<open>None = None\<close> does here.
\<close>

fun drop_duplicates_from :: "('r \<Rightarrow> 'k) \<Rightarrow> 'k list \<Rightarrow> 'r list \<Rightarrow> 'r list" where
  "drop_duplicates_from key seen [] = []"
| "drop_duplicates_from key seen (r # rs) =
     (if key r \<in> set seen then drop_duplicates_from key seen rs
      else r # drop_duplicates_from key (key r # seen) rs)"

definition drop_duplicates :: "('r \<Rightarrow> 'k) \<Rightarrow> 'r list \<Rightarrow> 'r list" where
  "drop_duplicates key rs = drop_duplicates_from key [] rs"

definition claims_of :: "claim_line list \<Rightarrow> claim_line list" where
  "claims_of df371 = drop_duplicates claim_no df371"

section \<open>Aging buckets (lines 209 to 211)\<close>

text \<open>
  \<^verbatim>\<open>pd.cut(x, bins, labels)\<close> with the default \<^verbatim>\<open>right=True\<close> assigns label \<open>i\<close> to
  the values in the interval \<open>(bins[i], bins[i+1]]\<close> and NaN to a value in no interval.
  The last edge of the source is \<^verbatim>\<open>float("inf")\<close>: the list below holds the finite
  edges, and the interval after the last of them has no upper end.
\<close>

definition bins :: "int list" where
  "bins = [-1, 30, 60, 90, 120]"

definition labels :: "string list" where
  "labels = [''0 - 30 Days'', ''31 - 60 Days'', ''61 - 90 Days'', ''91 - 120 Days'',
             ''Above 120 Days'']"

fun cut :: "int list \<Rightarrow> string list \<Rightarrow> int \<Rightarrow> string option" where
  "cut (lo # hi # bs) (l # ls) x =
     (if lo < x \<and> x \<le> hi then Some l else cut (hi # bs) ls x)"
| "cut [lo] (l # ls) x = (if lo < x then Some l else None)"
| "cut bs ls x = None"

definition fillna :: "'a \<Rightarrow> 'a option \<Rightarrow> 'a" where
  "fillna v c = (case c of None \<Rightarrow> v | Some x \<Rightarrow> x)"

definition aging_bucket :: "int option \<Rightarrow> string option" where
  "aging_bucket aging_days = cut bins labels (fillna 999999 aging_days)"

section \<open>Sorting, rounding and grouping as pandas does them\<close>

text \<open>
  \<^verbatim>\<open>sort_values(col, ascending=False)\<close>: pandas reverses the rows, sorts them ascending
  and reverses the result, so that with a stable sort rows of equal value keep their
  order. The default sort is numpy's quicksort, which is stable on short columns and
  leaves the order of equal values open on long ones; the model is the stable one.
\<close>

definition sort_values_desc :: "('r \<Rightarrow> 'k::linorder) \<Rightarrow> 'r list \<Rightarrow> 'r list" where
  "sort_values_desc col rs = rev (sort_key col (rev rs))"



text \<open>
  \<^verbatim>\<open>groupby(key)\<close> has one group per distinct key, in ascending key order, and drops
  the rows whose key is missing; \<^verbatim>\<open>nunique\<close> counts the distinct values of a
  column that are not missing.
\<close>

definition group_keys :: "('r \<Rightarrow> 'k::linorder option) \<Rightarrow> 'r list \<Rightarrow> 'k list" where
  "group_keys key rs = sort (remdups (List.map_filter key rs))"

definition group_rows :: "('r \<Rightarrow> 'k option) \<Rightarrow> 'k \<Rightarrow> 'r list \<Rightarrow> 'r list" where
  "group_rows key k rs = filter (\<lambda>r. key r = Some k) rs"

definition nunique :: "('r \<Rightarrow> 'v option) \<Rightarrow> 'r list \<Rightarrow> nat" where
  "nunique col rs = length (remdups (List.map_filter col rs))"

section \<open>Payer and provider columns (lines 111 to 113)\<close>

definition normalize_payer_provider :: "claim_line \<Rightarrow> claim_line" where
  "normalize_payer_provider r =
     r\<lparr>primary_payer := Some (fillna ''Unknown'' (primary_payer r)),
       rendering_provider := Some (fillna [] (rendering_provider r))\<rparr>"

section \<open>Dates and strings\<close>


definition digit :: "int \<Rightarrow> char" where
  "digit n = ''0123456789'' ! nat (n mod 10)"

definition pad2 :: "int \<Rightarrow> string" where
  "pad2 n = [digit (n div 10), digit n]"

definition pad4 :: "int \<Rightarrow> string" where
  "pad4 n = [digit (n div 1000), digit (n div 100), digit (n div 10), digit n]"

text \<open>\<^verbatim>\<open>strftime('%Y-%m')\<close> and \<^verbatim>\<open>strftime('%Y-%m-%d')\<close>; a missing date stays missing.\<close>

definition strftime_Ym :: "date \<Rightarrow> string" where
  "strftime_Ym d = pad4 (year d) @ ''-'' @ pad2 (month d)"



definition upper_char :: "char \<Rightarrow> char" where
  "upper_char c =
     (if CHR ''a'' \<le> c \<and> c \<le> CHR ''z'' then char_of (of_char c - (32::nat)) else c)"


definition upper :: "string \<Rightarrow> string" where
  "upper s = map upper_char s"

text \<open>The ASCII characters that Python counts as whitespace: codes 9 to 13, 28 to 32.\<close>

definition is_space :: "char \<Rightarrow> bool" where
  "is_space c \<longleftrightarrow>
     (9 \<le> (of_char c :: nat) \<and> (of_char c :: nat) \<le> 13)
     \<or> (28 \<le> (of_char c :: nat) \<and> (of_char c :: nat) \<le> 32)"

definition strip :: "string \<Rightarrow> string" where
  "strip s = rev (dropWhile is_space (rev (dropWhile is_space s)))"

fun contains :: "string \<Rightarrow> string \<Rightarrow> bool" where
  "contains pat [] = (pat = [])"
| "contains pat (c # cs) = (prefix pat (c # cs) \<or> contains pat cs)"

section \<open>Provider-level visits (lines 135 to 157)\<close>





text \<open>
  Lines 144 to 147: the month label of a row. \<open>has_claim_date\<close> says whether the report
  has the column 'Claim Date'; if it has, an unparseable date gives a missing label.
\<close>

definition month_label :: "bool \<Rightarrow> claim_line \<Rightarrow> string option" where
  "month_label has_claim_date r =
     (if has_claim_date then map_option strftime_Ym (claim_date r) else Some ''Unknown'')"

record pt_row =
  pt_index :: string
  pt_months :: "nat list"
  pt_grand_total :: nat

record pt_table =
  pt_columns :: "string list"
  pt_rows :: "pt_row list"

text \<open>
  Line 149: \<^verbatim>\<open>groupby(['Rendering Provider','Month'])['Claim No'].nunique()
  .unstack(fill_value=0)\<close>. A row missing either key is in no group. The table has a
  row per provider and a column per month label that occur in a group, both ascending.
  Line 150 adds the column 'Grand Total', the sum of the row.
\<close>

definition in_group :: "bool \<Rightarrow> claim_line \<Rightarrow> bool" where
  "in_group has_claim_date r \<longleftrightarrow>
     rendering_provider r \<noteq> None \<and> month_label has_claim_date r \<noteq> None"

definition pt_of :: "bool \<Rightarrow> claim_line list \<Rightarrow> pt_table" where
  "pt_of has_claim_date pv =
     (let grouped = filter (in_group has_claim_date) pv;
          months = group_keys (month_label has_claim_date) grouped;
          providers = group_keys rendering_provider grouped;
          cells = (\<lambda>p. map (\<lambda>m. nunique claim_no
                     (group_rows (month_label has_claim_date) m
                        (group_rows rendering_provider p grouped))) months)
      in \<lparr>pt_columns = months,
          pt_rows = map (\<lambda>p. \<lparr>pt_index = p, pt_months = cells p,
                                pt_grand_total = sum_list (cells p)\<rparr>) providers\<rparr>)"

text \<open>
  Lines 152 to 154: \<^verbatim>\<open>pt.sum()\<close> adds up every column, 'Grand Total' among them, and
  the sums are appended as the row 'Grand Total'.
\<close>

definition total_row :: "pt_table \<Rightarrow> pt_row" where
  "total_row pt =
     \<lparr>pt_index = ''Grand Total'',
      pt_months = map (\<lambda>j. sum_list (map (\<lambda>r. pt_months r ! j) (pt_rows pt)))
                    [0 ..< length (pt_columns pt)],
      pt_grand_total = sum_list (map pt_grand_total (pt_rows pt))\<rparr>"

definition pt_full_of :: "pt_table \<Rightarrow> pt_table" where
  "pt_full_of pt = pt\<lparr>pt_rows := pt_rows pt @ [total_row pt]\<rparr>"





section \<open>Payer mix by unique claims (lines 169 to 180)\<close>







section \<open>Insurance AR aging (lines 188 to 247)\<close>

text \<open>
  The number of days from 1970-01-01 to a calendar date, for the difference of two dates
  in whole days (\<^verbatim>\<open>(today - date).dt.days\<close>).
\<close>

definition days_from_civil :: "date \<Rightarrow> int" where
  "days_from_civil d =
     (let y = year d - (if month d \<le> 2 then 1 else 0);
          era = y div 400;
          yoe = y - era * 400;
          mp = (month d + 9) mod 12;
          doy = (153 * mp + 2) div 5 + day d - 1;
          doe = yoe * 365 + yoe div 4 - yoe div 100 + doy
      in era * 146097 + doe - 719468)"

definition aging_days :: "date \<Rightarrow> claim_line \<Rightarrow> int option" where
  "aging_days today r =
     map_option (\<lambda>d. days_from_civil today - days_from_civil d) (start_date_of_service r)"

text \<open>
  Lines 202 to 206. \<^verbatim>\<open>astype(str)\<close> turns a missing cell into the text 'nan'.
  \<open>has_status\<close> says whether the report has the column 'Claim Status Code'.
\<close>

definition is_self_pay :: "claim_line \<Rightarrow> bool" where
  "is_self_pay r \<longleftrightarrow> upper (strip (fillna ''nan'' (primary_payer r))) = ''SELF PAY''"

definition is_pat_status :: "claim_line \<Rightarrow> bool" where
  "is_pat_status r \<longleftrightarrow> contains ''PAT'' (upper (fillna ''nan'' (claim_status_code r)))"

definition aging_rows :: "bool \<Rightarrow> claim_line list \<Rightarrow> claim_line list" where
  "aging_rows has_status df =
     (let df = filter (\<lambda>r. \<not> is_self_pay r) df
      in if has_status then filter (\<lambda>r. \<not> is_pat_status r) df else df)"

record aging_row =
  AgingBucket :: string
  Charges :: amount
  AllowedFee :: amount
  ExpectedPayments :: amount
  PaymentsCollected :: amount
  Pending :: amount

text \<open>
  Lines 225 to 235. The bucket column is categorical, and a group-by on a categorical
  column (with pandas' default \<^verbatim>\<open>observed=False\<close>) has a row for each of the five
  labels, in their order, an empty bucket summing to 0. Rows without a bucket are in no
  group. ExpectedPayments is the allowed fee, Pending is expected minus collected.
\<close>

definition aging_summary :: "date \<Rightarrow> claim_line list \<Rightarrow> aging_row list" where
  "aging_summary today df =
     map (\<lambda>l. let g = filter (\<lambda>r. aging_bucket (aging_days today r) = Some l) df
              in \<lparr>AgingBucket = l,
                  Charges = sum_list (map billed_charge g),
                  AllowedFee = sum_list (map fee_schedule_allowed_fee g),
                  ExpectedPayments = sum_list (map fee_schedule_allowed_fee g),
                  PaymentsCollected = sum_list (map total_payment g),
                  Pending = sum_list (map (\<lambda>r. fee_schedule_allowed_fee r - total_payment r) g)\<rparr>)
       labels"

text \<open>Lines 238 to 247: the column totals, appended as the row 'Grand Total'.\<close>

definition aging_total_row :: "aging_row list \<Rightarrow> aging_row" where
  "aging_total_row summary =
     \<lparr>AgingBucket = ''Grand Total'',
      Charges = sum_list (map Charges summary),
      AllowedFee = sum_list (map AllowedFee summary),
      ExpectedPayments = sum_list (map ExpectedPayments summary),
      PaymentsCollected = sum_list (map PaymentsCollected summary),
      Pending = sum_list (map Pending summary)\<rparr>"

definition aging_summary_full :: "bool \<Rightarrow> date \<Rightarrow> claim_line list \<Rightarrow> aging_row list" where
  "aging_summary_full has_status today df371 =
     (let summary = aging_summary today (aging_rows has_status df371)
      in summary @ [aging_total_row summary])"

section \<open>Monthly transaction summary (lines 268 to 296)\<close>

text \<open>
  One row of the 123.07 report. Its amount columns are not coerced by the script; an
  empty cell is \<open>None\<close>, and pandas' sum skips it.
\<close>

record txn =
  txn_date :: "date option"
  billed_charges :: "amount option"
  patient_payments :: "amount option"
  payer_payments :: "amount option"
  contractual_adjustments :: "amount option"
  posting_status :: "string option"

definition sum_skipna :: "('r \<Rightarrow> amount option) \<Rightarrow> 'r list \<Rightarrow> amount" where
  "sum_skipna col rs = sum_list (List.map_filter col rs)"

text \<open>
  Line 272: \<^verbatim>\<open>dt.to_period('M').astype(str)\<close> gives 'YYYY-MM', and the text 'NaT' for
  a missing date, which is a group key like any other.
\<close>

definition period_month :: "txn \<Rightarrow> string" where
  "period_month r = (case txn_date r of None \<Rightarrow> ''NaT'' | Some d \<Rightarrow> strftime_Ym d)"

definition month_abbr :: "int \<Rightarrow> string" where
  "month_abbr m =
     [''Jan'', ''Feb'', ''Mar'', ''Apr'', ''May'', ''Jun'', ''Jul'', ''Aug'', ''Sep'', ''Oct'',
      ''Nov'', ''Dec''] ! nat ((m - 1) mod 12)"

text \<open>
  Line 282: the group key read back as a date and printed with \<^verbatim>\<open>'%b %Y'\<close>; the key
  'NaT' gives a missing label. The key is the month of some row of the group.
\<close>

definition transaction_month :: "txn list \<Rightarrow> string option" where
  "transaction_month g =
     (case g of
        [] \<Rightarrow> None
      | r # _ \<Rightarrow> map_option (\<lambda>d. month_abbr (month d) @ '' '' @ pad4 (year d)) (txn_date r))"

record monthly_row =
  TRANSACTION_MONTH :: "string option"
  BILLED_CHARGES :: amount
  PATIENT_PAYMENTS :: amount
  PAYER_PAYMENTS :: amount
  CONTRACTUAL_ADJUSTMENTS :: amount

definition monthly_summary :: "txn list \<Rightarrow> monthly_row list" where
  "monthly_summary df123 =
     map (\<lambda>k. let g = filter (\<lambda>r. period_month r = k) df123
              in \<lparr>TRANSACTION_MONTH = transaction_month g,
                  BILLED_CHARGES = sum_skipna billed_charges g,
                  PATIENT_PAYMENTS = sum_skipna patient_payments g,
                  PAYER_PAYMENTS = sum_skipna payer_payments g,
                  CONTRACTUAL_ADJUSTMENTS = sum_skipna contractual_adjustments g\<rparr>)
       (sort (remdups (map period_month df123)))"

definition monthly_total_row :: "monthly_row list \<Rightarrow> monthly_row" where
  "monthly_total_row summary =
     \<lparr>TRANSACTION_MONTH = Some ''Grand Total'',
      BILLED_CHARGES = sum_list (map BILLED_CHARGES summary),
      PATIENT_PAYMENTS = sum_list (map PATIENT_PAYMENTS summary),
      PAYER_PAYMENTS = sum_list (map PAYER_PAYMENTS summary),
      CONTRACTUAL_ADJUSTMENTS = sum_list (map CONTRACTUAL_ADJUSTMENTS summary)\<rparr>"

definition monthly_summary_full :: "txn list \<Rightarrow> monthly_row list" where
  "monthly_summary_full df123 =
     (let summary = monthly_summary df123 in summary @ [monthly_total_row summary])"

section \<open>Payments by payer (lines 308 to 324)\<close>

text \<open>
  \<^verbatim>\<open>Series.quantile(q)\<close> with linear interpolation: the value at position
  \<open>q * (n - 1)\<close> of the ascending values, between neighbours in proportion; NaN on an
  empty column.
\<close>

definition quantile :: "rat \<Rightarrow> rat list \<Rightarrow> rat option" where
  "quantile q xs =
     (if xs = [] then None
      else let s = sort xs; n = length xs; h = q * of_nat (n - 1);
               lo = nat \<lfloor>h\<rfloor>; hi = min (lo + 1) (n - 1)
           in Some (s ! lo + (h - of_int \<lfloor>h\<rfloor>) * (s ! hi - s ! lo)))"

definition minor_threshold_amount :: "(string \<times> amount) list \<Rightarrow> amount" where
  "minor_threshold_amount payments_by_payer =
     (case quantile (1 / 10) (map snd payments_by_payer) of
        None \<Rightarrow> 1
      | Some t \<Rightarrow> if t \<le> 0 then 1 else t)"

definition fold_minor_payments :: "(string \<times> amount) list \<Rightarrow> (string \<times> amount) list" where
  "fold_minor_payments payments_by_payer =
     (let t = minor_threshold_amount payments_by_payer;
          major_payments = filter (\<lambda>r. t \<le> snd r) payments_by_payer;
          minor_payments = filter (\<lambda>r. snd r < t) payments_by_payer
      in if minor_payments \<noteq> []
         then major_payments @ [(''Other minor payers'', sum_list (map snd minor_payments))]
         else major_payments)"

definition payments_by_payer_final :: "(string \<times> amount) list \<Rightarrow> (string \<times> amount) list" where
  "payments_by_payer_final payments_by_payer =
     sort_values_desc snd (fold_minor_payments payments_by_payer)"

section \<open>Unposted payments and the ERA ledger (lines 336 to 371)\<close>





















section \<open>Denials summary (lines 374 to 384)\<close>





section \<open>The script from upload to export\<close>


text \<open>
  The \<open>col_\<close> fields say whether the report has the column that the script tests for:
  'Start Date of Service', 'Claim Date', 'Claim Status Code' and 'Total(Balance)' of report
  371.05, 'Date' and 'Posting Status' of report 123.07.
\<close>






section \<open>Example batches\<close>

text \<open>
  A claim line with the given claim number, provider, payer, service date, claim date,
  allowed fee and payer payment; the other columns hold fixed values.
\<close>

definition line ::
  "string \<Rightarrow> string \<Rightarrow> string \<Rightarrow> date option \<Rightarrow> date option \<Rightarrow> amount \<Rightarrow> amount
     \<Rightarrow> claim_line" where
  "line cno prov payer dos cdate allowed paid =
     \<lparr>claim_no = Some cno, rendering_provider = Some prov, primary_payer = Some payer,
      claim_status_code = Some ''BILLED'', claim_status_group_name = Some ''Open'',
      start_date_of_service = dos, claim_date = cdate, billed_charge = 200,
      fee_schedule_allowed_fee = allowed, total_payment = paid, payer_payment = paid,
      contractual_adjustment = 0, total_balance = 200 - paid\<rparr>"

definition jan15 :: date where
  "jan15 = \<lparr>year = 2025, month = 1, day = 15\<rparr>"

definition feb03 :: date where
  "feb03 = \<lparr>year = 2025, month = 2, day = 3\<rparr>"

text \<open>Three lines of claim A1 and one line of claim B2.\<close>

definition batch_a1_b2 :: "claim_line list" where
  "batch_a1_b2 =
     [line ''A1'' ''Lee, Ann'' ''Aetna'' (Some jan15) (Some jan15) 120 100,
      line ''A1'' ''Lee, Ann'' ''Aetna'' (Some jan15) (Some jan15) 80 0,
      line ''B2'' ''Roy, Max'' ''Cigna'' (Some feb03) (Some feb03) 90 90,
      line ''A1'' ''Lee, Ann'' ''Aetna'' (Some jan15) (Some jan15) 40 10]"



text \<open>Payer payment sums: a spread of amounts, and a batch where nothing was paid.\<close>

definition payments_spread :: "(string \<times> amount) list" where
  "payments_spread = [(''Aetna'', 500), (''Cigna'', 40), (''Self Pay'', 3), (''UHC'', 1200)]"

definition payments_all_zero :: "(string \<times> amount) list" where
  "payments_all_zero = [(''Aetna'', 0), (''Cigna'', 0)]"

definition payments_single :: "(string \<times> amount) list" where
  "payments_single = [(''Aetna'', 500)]"

text \<open>
  Eight claims dated January 2025, one of provider Lee and seven of provider Roy; and two
  claims of which the second has an unparseable claim date.
\<close>

definition jan_claim :: "string \<Rightarrow> string \<Rightarrow> claim_line" where
  "jan_claim cno prov = line cno prov ''Aetna'' (Some jan15) (Some jan15) 100 80"

definition batch_one_of_eight :: "claim_line list" where
  "batch_one_of_eight =
     map normalize_payer_provider
       [jan_claim ''C1'' ''Lee, Ann'', jan_claim ''C2'' ''Roy, Max'',
        jan_claim ''C3'' ''Roy, Max'', jan_claim ''C4'' ''Roy, Max'',
        jan_claim ''C5'' ''Roy, Max'', jan_claim ''C6'' ''Roy, Max'',
        jan_claim ''C7'' ''Roy, Max'', jan_claim ''C8'' ''Roy, Max'']"


text \<open>Transactions of two months and one with an unreadable date.\<close>

definition transaction ::
  "date option \<Rightarrow> amount \<Rightarrow> amount \<Rightarrow> amount \<Rightarrow> amount \<Rightarrow> string \<Rightarrow> txn" where
  "transaction d billed patient payer adj status =
     \<lparr>txn_date = d, billed_charges = Some billed, patient_payments = Some patient,
      payer_payments = Some payer, contractual_adjustments = Some adj,
      posting_status = Some status\<rparr>"

definition transactions_two_months :: "txn list" where
  "transactions_two_months =
     [transaction (Some jan15) 300 20 150 30 ''Posted'',
      transaction (Some feb03) 200 0 120 10 ''Unposted'',
      transaction (Some jan15) 100 10 0 0 ''Posted'',
      transaction None 50 5 0 0 ''Posted'']"

definition today_mar01 :: date where
  "today_mar01 = \<lparr>year = 2025, month = 3, day = 1\<rparr>"











section \<open>Properties\<close>

subsection \<open>Deduplication\<close>

lemma drop_duplicates_from_keys:
  "key ` set (drop_duplicates_from key seen rs) = key ` set rs - set seen"
  by (induction rs arbitrary: seen) auto

lemma drop_duplicates_from_distinct:
  "distinct (map key (drop_duplicates_from key seen rs))"
  by (induction rs arbitrary: seen) (auto simp: drop_duplicates_from_keys)

lemma drop_duplicates_from_length:
  "length (drop_duplicates_from key seen rs) \<le> length rs"
  by (induction rs arbitrary: seen) (auto simp: le_SucI)

lemma drop_duplicates_from_subseq:
  "subseq (drop_duplicates_from key seen rs) rs"
  by (induction rs arbitrary: seen) auto

lemma drop_duplicates_from_first:
  "r \<in> set (drop_duplicates_from key seen rs) \<Longrightarrow>
     find (\<lambda>x. key x = key r) rs = Some r"
proof (induction rs arbitrary: seen)
  case Nil
  then show ?case by simp
next
  case (Cons a rs)
  show ?case
  proof (cases "key a \<in> set seen")
    case True
    with Cons.prems have in_rest: "r \<in> set (drop_duplicates_from key seen rs)" by simp
    then have "key r \<in> key ` set (drop_duplicates_from key seen rs)" by blast
    then have "key r \<notin> set seen" by (simp add: drop_duplicates_from_keys)
    with True have "key a \<noteq> key r" by auto
    with Cons.IH [OF in_rest] show ?thesis by simp
  next
    case False
    with Cons.prems
    have "r = a \<or> r \<in> set (drop_duplicates_from key (key a # seen) rs)" by auto
    then show ?thesis
    proof
      assume "r = a"
      then show ?thesis by simp
    next
      assume in_rest: "r \<in> set (drop_duplicates_from key (key a # seen) rs)"
      then have "key r \<in> key ` set (drop_duplicates_from key (key a # seen) rs)"
        by blast
      then have "key r \<noteq> key a" by (simp add: drop_duplicates_from_keys)
      with Cons.IH [OF in_rest] show ?thesis by simp
    qed
  qed
qed

text \<open>
  C3. The claim batch has one row per distinct claim identifier: the identifiers of the
  output are pairwise distinct and are exactly the identifiers of the input, the output is
  no longer than the input and keeps its order, and every output row is, unchanged, the
  first input row carrying its identifier (so its amounts are those of that single line).
\<close>

theorem claims_of_one_row_per_claim:
  "set (map claim_no (claims_of df371)) = set (map claim_no df371)
   \<and> distinct (map claim_no (claims_of df371))
   \<and> length (claims_of df371) \<le> length df371
   \<and> subseq (claims_of df371) df371
   \<and> (\<forall>r \<in> set (claims_of df371).
        find (\<lambda>x. claim_no x = claim_no r) df371 = Some r)"
  unfolding claims_of_def drop_duplicates_def
  using drop_duplicates_from_keys [of claim_no "[]" df371]
    drop_duplicates_from_distinct [of claim_no "[]" df371]
    drop_duplicates_from_length [of claim_no "[]" df371]
    drop_duplicates_from_subseq [of claim_no "[]" df371]
    drop_duplicates_from_first [of _ claim_no "[]" df371]
  by auto

theorem claims_of_one_row_per_claim_witness:
  "map claim_no (claims_of batch_a1_b2) = [Some ''A1'', Some ''B2'']
   \<and> length (claims_of batch_a1_b2) = 2
   \<and> hd batch_a1_b2 \<in> set (claims_of batch_a1_b2)
   \<and> find (\<lambda>x. claim_no x = claim_no (hd batch_a1_b2)) batch_a1_b2 = Some (hd batch_a1_b2)"
proof -
  have rows: "claims_of batch_a1_b2 = [batch_a1_b2 ! 0, batch_a1_b2 ! 2]"
    by (simp add: claims_of_def drop_duplicates_def batch_a1_b2_def line_def)
  have first: "hd batch_a1_b2 \<in> set (claims_of batch_a1_b2)"
    unfolding rows by (simp add: batch_a1_b2_def)
  have keys: "map claim_no (claims_of batch_a1_b2) = [Some ''A1'', Some ''B2'']"
    unfolding rows by (simp add: batch_a1_b2_def line_def)
  have "find (\<lambda>x. claim_no x = claim_no (hd batch_a1_b2)) batch_a1_b2
          = Some (hd batch_a1_b2)"
    using claims_of_one_row_per_claim [of batch_a1_b2] first by blast
  with rows first keys show ?thesis by simp
qed

subsection \<open>Aging buckets\<close>

lemma aging_bucket_Some:
  "aging_bucket (Some d) =
     (if d \<le> - 1 then None
      else if d \<le> 30 then Some ''0 - 30 Days''
      else if d \<le> 60 then Some ''31 - 60 Days''
      else if d \<le> 90 then Some ''61 - 90 Days''
      else if d \<le> 120 then Some ''91 - 120 Days''
      else Some ''Above 120 Days'')"
  by (simp add: aging_bucket_def bins_def labels_def fillna_def)

lemma aging_bucket_None: "aging_bucket None = Some ''Above 120 Days''"
  by (simp add: aging_bucket_def bins_def labels_def fillna_def)

lemma unique_label: "x = Some v \<Longrightarrow> v \<in> S \<Longrightarrow> \<exists>!l. l \<in> S \<and> x = Some l"
  by auto

lemma aging_bucket_in_labels:
  "0 \<le> d \<Longrightarrow> \<exists>l \<in> set labels. aging_bucket (Some d) = Some l"
  unfolding aging_bucket_Some labels_def by simp


text \<open>
  C1, as the code has it. A missing AgingDays is filled with 999999 and lands in
  "Above 120 Days". Every AgingDays of at least 0 gets exactly one of the five labels, the
  one of its range, with 30, 60, 90 and 120 in the lower bucket. No label is assigned
  exactly when AgingDays is negative (a service date after today): the first interval
  starts above -1.
\<close>

theorem aging_bucket_total_on_nonnegative:
  "aging_bucket None = Some ''Above 120 Days''
   \<and> (0 \<le> d \<longrightarrow>
        aging_bucket (Some d) =
          Some (if d \<le> 30 then ''0 - 30 Days''
                else if d \<le> 60 then ''31 - 60 Days''
                else if d \<le> 90 then ''61 - 90 Days''
                else if d \<le> 120 then ''91 - 120 Days''
                else ''Above 120 Days'')
        \<and> (\<exists>!l. l \<in> set labels \<and> aging_bucket (Some d) = Some l))
   \<and> (aging_bucket a = None \<longleftrightarrow> (\<exists>n. a = Some n \<and> n < 0))
   \<and> aging_bucket (Some 30) = Some ''0 - 30 Days''
   \<and> aging_bucket (Some 31) = Some ''31 - 60 Days''
   \<and> aging_bucket (Some 60) = Some ''31 - 60 Days''
   \<and> aging_bucket (Some 90) = Some ''61 - 90 Days''
   \<and> aging_bucket (Some 120) = Some ''91 - 120 Days''
   \<and> aging_bucket (Some 121) = Some ''Above 120 Days''"
proof -
  have none: "aging_bucket a = None \<longleftrightarrow> (\<exists>n. a = Some n \<and> n < 0)"
  proof (cases a)
    case None
    then show ?thesis by (simp add: aging_bucket_None)
  next
    case (Some n)
    then show ?thesis by (simp add: aging_bucket_Some)
  qed
  have range: "aging_bucket (Some d) =
          Some (if d \<le> 30 then ''0 - 30 Days''
                else if d \<le> 60 then ''31 - 60 Days''
                else if d \<le> 90 then ''61 - 90 Days''
                else if d \<le> 120 then ''91 - 120 Days''
                else ''Above 120 Days'')" if "0 \<le> d"
    using that unfolding aging_bucket_Some by simp
  have one: "\<exists>!l. l \<in> set labels \<and> aging_bucket (Some d) = Some l" if "0 \<le> d"
  proof -
    from aging_bucket_in_labels [OF that]
    obtain l where "l \<in> set labels" and "aging_bucket (Some d) = Some l" by blast
    then show ?thesis by (rule_tac unique_label) 
  qed
  have b30: "aging_bucket (Some 30) = Some ''0 - 30 Days''"
    unfolding aging_bucket_Some by simp
  have b31: "aging_bucket (Some 31) = Some ''31 - 60 Days''"
    unfolding aging_bucket_Some by simp
  have b60: "aging_bucket (Some 60) = Some ''31 - 60 Days''"
    unfolding aging_bucket_Some by simp
  have b90: "aging_bucket (Some 90) = Some ''61 - 90 Days''"
    unfolding aging_bucket_Some by simp
  have b120: "aging_bucket (Some 120) = Some ''91 - 120 Days''"
    unfolding aging_bucket_Some by simp
  have b121: "aging_bucket (Some 121) = Some ''Above 120 Days''"
    unfolding aging_bucket_Some by simp
  from none range one b30 b31 b60 b90 b120 b121 aging_bucket_None
  show ?thesis by blast
qed

theorem aging_bucket_total_on_nonnegative_witness:
  "(0::int) \<le> 45 \<and> aging_bucket (Some 45) = Some ''31 - 60 Days''
   \<and> (\<exists>!l. l \<in> set labels \<and> aging_bucket (Some 45) = Some l)"
proof -
  have nonneg: "(0::int) \<le> 45" by simp
  have pick: "(if (45::int) \<le> 30 then ''0 - 30 Days''
                else if (45::int) \<le> 60 then ''31 - 60 Days''
                else if (45::int) \<le> 90 then ''61 - 90 Days''
                else if (45::int) \<le> 120 then ''91 - 120 Days''
                else ''Above 120 Days'') = ''31 - 60 Days''" by simp
  from aging_bucket_total_on_nonnegative [of 45 None] nonneg
  have "aging_bucket (Some 45) =
          Some (if (45::int) \<le> 30 then ''0 - 30 Days''
                else if (45::int) \<le> 60 then ''31 - 60 Days''
                else if (45::int) \<le> 90 then ''61 - 90 Days''
                else if (45::int) \<le> 120 then ''91 - 120 Days''
                else ''Above 120 Days'')"
    and "\<exists>!l. l \<in> set labels \<and> aging_bucket (Some 45) = Some l"
    by blast+
  with nonneg pick show ?thesis by (simp only: simp_thms)
qed

text \<open>
  The claim as written covers every AgingDays value; a service date one day after today
  gives AgingDays -1, which gets no bucket.
\<close>

theorem aging_bucket_negative_counterexample:
  "aging_bucket (Some (- 1)) = None"
  by (simp add: aging_bucket_Some)

subsection \<open>Sorting and rounding\<close>

lemma mset_sort_values_desc: "mset (sort_values_desc col rs) = mset rs"
  by (simp add: sort_values_desc_def)

lemma sort_values_desc_sorted:
  "sorted_wrt (\<lambda>a b. b \<le> a) (map col (sort_values_desc col rs))"
  by (simp add: sort_values_desc_def rev_map [symmetric] sorted_wrt_rev)



lemma sum_list_split_filter:
  fixes f :: "'a \<Rightarrow> 'b::comm_monoid_add"
  shows "sum_list (map f (filter P xs)) + sum_list (map f (filter (\<lambda>x. \<not> P x) xs))
           = sum_list (map f xs)"
  by (induction xs) (simp_all add: ac_simps)

subsection \<open>Payer mix\<close>

lemma no_minor_all_major:
  fixes t :: "'a::linorder"
  shows "filter (\<lambda>r. snd r < t) xs = [] \<Longrightarrow> filter (\<lambda>r. t \<le> snd r) xs = xs"
  by (induction xs) (auto split: if_splits)


lemma sum_list_sort_values_desc:
  fixes f :: "'a \<Rightarrow> 'b::comm_monoid_add"
  shows "sum_list (map f (sort_values_desc col rs)) = sum_list (map f rs)"
proof -
  have "mset (map f (sort_values_desc col rs)) = mset (map f rs)"
    by (simp add: mset_sort_values_desc)
  then show ?thesis by (metis sum_mset_sum_list)
qed







subsection \<open>Payments by payer\<close>

lemma minor_threshold_amount_pos: "0 < minor_threshold_amount payments_by_payer"
  by (simp add: minor_threshold_amount_def split: option.splits)

lemma fold_minor_payments_sum:
  "sum_list (map snd (fold_minor_payments pbp)) = sum_list (map snd pbp)"
proof (cases "filter (\<lambda>r. snd r < minor_threshold_amount pbp) pbp = []")
  case True
  then show ?thesis
    by (simp add: fold_minor_payments_def no_minor_all_major)
next
  case False
  then show ?thesis
    using sum_list_split_filter [of snd "\<lambda>r. minor_threshold_amount pbp \<le> snd r" pbp]
    by (simp add: fold_minor_payments_def Let_def not_le)
qed

text \<open>
  C5. The threshold is the 10th percentile of the payers' summed payments, or 1 when that
  percentile is undefined (no payer) or not positive; it is always positive. Payers whose
  sum is below the threshold are replaced by one row "Other minor payers" holding the sum
  of their amounts; with no such payer the rows are the input rows and no row is added.
  The result is in descending order of amount, the added row included, and the overall
  amount is unchanged.
\<close>

theorem payments_by_payer_quantile_folding:
  "minor_threshold_amount pbp =
     (case quantile (1 / 10) (map snd pbp) of None \<Rightarrow> 1
      | Some q \<Rightarrow> if q \<le> 0 then 1 else q)
   \<and> 0 < minor_threshold_amount pbp
   \<and> (filter (\<lambda>r. snd r < minor_threshold_amount pbp) pbp \<noteq> [] \<longrightarrow>
        mset (payments_by_payer_final pbp)
          = mset (filter (\<lambda>r. minor_threshold_amount pbp \<le> snd r) pbp)
            + {#(''Other minor payers'',
                 sum_list (map snd (filter (\<lambda>r. snd r < minor_threshold_amount pbp) pbp)))#})
   \<and> (filter (\<lambda>r. snd r < minor_threshold_amount pbp) pbp = [] \<longrightarrow>
        mset (payments_by_payer_final pbp) = mset pbp)
   \<and> sorted_wrt (\<lambda>a b. b \<le> a) (map snd (payments_by_payer_final pbp))
   \<and> sum_list (map snd (payments_by_payer_final pbp)) = sum_list (map snd pbp)"
proof -
  have folded: "filter (\<lambda>r. snd r < minor_threshold_amount pbp) pbp \<noteq> [] \<Longrightarrow>
        mset (payments_by_payer_final pbp)
          = mset (filter (\<lambda>r. minor_threshold_amount pbp \<le> snd r) pbp)
            + {#(''Other minor payers'',
                 sum_list (map snd (filter (\<lambda>r. snd r < minor_threshold_amount pbp) pbp)))#}"
    by (simp add: payments_by_payer_final_def mset_sort_values_desc fold_minor_payments_def
        Let_def)
  have kept: "filter (\<lambda>r. snd r < minor_threshold_amount pbp) pbp = [] \<Longrightarrow>
        mset (payments_by_payer_final pbp) = mset pbp"
    by (simp add: payments_by_payer_final_def mset_sort_values_desc fold_minor_payments_def
        Let_def no_minor_all_major)
  have desc: "sorted_wrt (\<lambda>a b. b \<le> a) (map snd (payments_by_payer_final pbp))"
    by (simp only: payments_by_payer_final_def sort_values_desc_sorted)
  have total: "sum_list (map snd (payments_by_payer_final pbp)) = sum_list (map snd pbp)"
    by (simp only: payments_by_payer_final_def sum_list_sort_values_desc
        fold_minor_payments_sum)
  have thr: "minor_threshold_amount pbp =
     (case quantile (1 / 10) (map snd pbp) of None \<Rightarrow> 1
      | Some q \<Rightarrow> if q \<le> 0 then 1 else q)"
    by (simp add: minor_threshold_amount_def)
  from thr minor_threshold_amount_pos folded kept desc total show ?thesis by blast
qed

theorem payments_by_payer_quantile_folding_witness:
  "quantile (1 / 10) (map snd payments_spread) = Some (141 / 10)
   \<and> minor_threshold_amount payments_spread = 141 / 10
   \<and> filter (\<lambda>r. snd r < minor_threshold_amount payments_spread) payments_spread \<noteq> []
   \<and> mset (payments_by_payer_final payments_spread)
       = {#(''UHC'', 1200), (''Aetna'', 500), (''Cigna'', 40), (''Other minor payers'', 3)#}
   \<and> quantile (1 / 10) (map snd payments_all_zero) = Some 0
   \<and> minor_threshold_amount payments_all_zero = 1
   \<and> quantile (1 / 10) [] = None
   \<and> minor_threshold_amount [] = 1
   \<and> filter (\<lambda>r. snd r < minor_threshold_amount payments_single) payments_single = []
   \<and> mset (payments_by_payer_final payments_single) = mset payments_single"
proof -
  note spread = payments_by_payer_quantile_folding [of payments_spread]
  note zero = payments_by_payer_quantile_folding [of payments_all_zero]
  note empty = payments_by_payer_quantile_folding [of "[]"]
  note single = payments_by_payer_quantile_folding [of payments_single]
  have q1: "quantile (1 / 10) (map snd payments_spread) = Some (141 / 10)"
    by code_simp
  have q2: "quantile (1 / 10) (map snd payments_all_zero) = Some 0"
    by code_simp
  have q3: "quantile (1 / 10) [] = None"
    by (simp add: quantile_def)
  have t1: "minor_threshold_amount payments_spread = 141 / 10"
    using spread by (simp add: q1)
  have t2: "minor_threshold_amount payments_all_zero = 1"
    using zero by (simp add: q2)
  have t3: "minor_threshold_amount [] = 1"
    using empty by (simp add: q3)
  have minor: "filter (\<lambda>r. snd r < minor_threshold_amount payments_spread) payments_spread
                 \<noteq> []"
    unfolding t1 by (simp add: payments_spread_def)
  have "mset (payments_by_payer_final payments_spread)
          = mset (filter (\<lambda>r. minor_threshold_amount payments_spread \<le> snd r) payments_spread)
            + {#(''Other minor payers'',
                 sum_list (map snd (filter (\<lambda>r. snd r < minor_threshold_amount payments_spread)
                    payments_spread)))#}"
    using spread minor by blast
  then have rows: "mset (payments_by_payer_final payments_spread)
       = {#(''UHC'', 1200), (''Aetna'', 500), (''Cigna'', 40), (''Other minor payers'', 3)#}"
    unfolding t1 by (simp add: payments_spread_def)
  have no_minor:
    "filter (\<lambda>r. snd r < minor_threshold_amount payments_single) payments_single = []"
    by code_simp
  with single have kept: "mset (payments_by_payer_final payments_single) = mset payments_single"
    by blast
  from q1 t1 minor rows q2 t2 q3 t3 no_minor kept show ?thesis by blast
qed

subsection \<open>Grand total rows\<close>

text \<open>
  C2. In each of the three aggregate tables the last row is the appended "Grand Total"
  row, and its value in every summed column is the sum of that column over the rows
  before it: the five amount columns of the AR aging summary, the four amount columns of
  the monthly transaction summary, and every month column and the "Grand Total" column of
  the provider-visit cross-tab.
\<close>

theorem grand_total_row_is_column_sum:
  "AgingBucket (last (aging_summary_full has_status today df371)) = ''Grand Total''
   \<and> Charges (last (aging_summary_full has_status today df371))
       = sum_list (map Charges (butlast (aging_summary_full has_status today df371)))
   \<and> AllowedFee (last (aging_summary_full has_status today df371))
       = sum_list (map AllowedFee (butlast (aging_summary_full has_status today df371)))
   \<and> ExpectedPayments (last (aging_summary_full has_status today df371))
       = sum_list (map ExpectedPayments (butlast (aging_summary_full has_status today df371)))
   \<and> PaymentsCollected (last (aging_summary_full has_status today df371))
       = sum_list (map PaymentsCollected (butlast (aging_summary_full has_status today df371)))
   \<and> Pending (last (aging_summary_full has_status today df371))
       = sum_list (map Pending (butlast (aging_summary_full has_status today df371)))
   \<and> TRANSACTION_MONTH (last (monthly_summary_full df123)) = Some ''Grand Total''
   \<and> BILLED_CHARGES (last (monthly_summary_full df123))
       = sum_list (map BILLED_CHARGES (butlast (monthly_summary_full df123)))
   \<and> PATIENT_PAYMENTS (last (monthly_summary_full df123))
       = sum_list (map PATIENT_PAYMENTS (butlast (monthly_summary_full df123)))
   \<and> PAYER_PAYMENTS (last (monthly_summary_full df123))
       = sum_list (map PAYER_PAYMENTS (butlast (monthly_summary_full df123)))
   \<and> CONTRACTUAL_ADJUSTMENTS (last (monthly_summary_full df123))
       = sum_list (map CONTRACTUAL_ADJUSTMENTS (butlast (monthly_summary_full df123)))
   \<and> pt_index (last (pt_rows (pt_full_of (pt_of has_claim_date pv)))) = ''Grand Total''
   \<and> butlast (pt_rows (pt_full_of (pt_of has_claim_date pv))) = pt_rows (pt_of has_claim_date pv)
   \<and> pt_grand_total (last (pt_rows (pt_full_of (pt_of has_claim_date pv))))
       = sum_list (map pt_grand_total (butlast (pt_rows (pt_full_of (pt_of has_claim_date pv)))))
   \<and> (\<forall>j < length (pt_columns (pt_full_of (pt_of has_claim_date pv))).
        pt_months (last (pt_rows (pt_full_of (pt_of has_claim_date pv)))) ! j
          = sum_list (map (\<lambda>r. pt_months r ! j)
              (butlast (pt_rows (pt_full_of (pt_of has_claim_date pv))))))"
proof -
  have aging: "last (aging_summary_full has_status today df371)
                 = aging_total_row (butlast (aging_summary_full has_status today df371))"
    by (simp add: aging_summary_full_def Let_def)
  have monthly: "last (monthly_summary_full df123)
                   = monthly_total_row (butlast (monthly_summary_full df123))"
    by (simp add: monthly_summary_full_def Let_def)
  have visits_last: "last (pt_rows (pt_full_of (pt_of has_claim_date pv)))
                  = total_row (pt_of has_claim_date pv)"
    by (simp add: pt_full_of_def)
  have visits_rows: "butlast (pt_rows (pt_full_of (pt_of has_claim_date pv)))
                  = pt_rows (pt_of has_claim_date pv)"
    by (simp add: pt_full_of_def)
  have visits_cols: "pt_columns (pt_full_of (pt_of has_claim_date pv))
                  = pt_columns (pt_of has_claim_date pv)"
    by (simp add: pt_full_of_def)
  have months: "\<forall>j < length (pt_columns (pt_full_of (pt_of has_claim_date pv))).
        pt_months (last (pt_rows (pt_full_of (pt_of has_claim_date pv)))) ! j
          = sum_list (map (\<lambda>r. pt_months r ! j)
              (butlast (pt_rows (pt_full_of (pt_of has_claim_date pv)))))"
    unfolding visits_last visits_rows visits_cols by (simp add: total_row_def)
  show ?thesis
    unfolding aging monthly
    using months visits_rows
    by (simp add: aging_total_row_def monthly_total_row_def visits_last total_row_def)
qed



lemma pt_full_one_of_eight:
  "pt_full_of (pt_of True batch_one_of_eight)
      = \<lparr>pt_columns = [''2025-01''],
         pt_rows = [\<lparr>pt_index = ''Lee, Ann'', pt_months = [1], pt_grand_total = 1\<rparr>,
                    \<lparr>pt_index = ''Roy, Max'', pt_months = [7], pt_grand_total = 7\<rparr>,
                    \<lparr>pt_index = ''Grand Total'', pt_months = [8], pt_grand_total = 8\<rparr>]\<rparr>"
  by code_simp



theorem grand_total_row_is_column_sum_witness:
  "0 < length (pt_columns (pt_full_of (pt_of True batch_one_of_eight)))
   \<and> pt_months (last (pt_rows (pt_full_of (pt_of True batch_one_of_eight)))) ! 0
       = sum_list (map (\<lambda>r. pt_months r ! 0)
           (butlast (pt_rows (pt_full_of (pt_of True batch_one_of_eight)))))
   \<and> map pt_months (pt_rows (pt_full_of (pt_of True batch_one_of_eight))) = [[1], [7], [8]]
   \<and> map pt_grand_total (pt_rows (pt_full_of (pt_of True batch_one_of_eight))) = [1, 7, 8]
   \<and> map Charges (aging_summary_full True today_mar01 batch_a1_b2) = [200, 600, 0, 0, 0, 800]
   \<and> map BILLED_CHARGES (monthly_summary_full transactions_two_months) = [400, 200, 50, 650]"
proof -
  note table = pt_full_one_of_eight
  have col: "0 < length (pt_columns (pt_full_of (pt_of True batch_one_of_eight)))"
    unfolding table by simp
  have sum0: "pt_months (last (pt_rows (pt_full_of (pt_of True batch_one_of_eight)))) ! 0
       = sum_list (map (\<lambda>r. pt_months r ! 0)
           (butlast (pt_rows (pt_full_of (pt_of True batch_one_of_eight)))))"
    using grand_total_row_is_column_sum [of _ _ _ _ True batch_one_of_eight] col by blast
  have months: "map pt_months (pt_rows (pt_full_of (pt_of True batch_one_of_eight)))
                  = [[1], [7], [8]]"
    unfolding table by simp
  have totals: "map pt_grand_total (pt_rows (pt_full_of (pt_of True batch_one_of_eight)))
                  = [1, 7, 8]"
    unfolding table by simp
  have aging: "map Charges (aging_summary_full True today_mar01 batch_a1_b2)
                 = [200, 600, 0, 0, 0, 800]"
    by code_simp
  have monthly: "map BILLED_CHARGES (monthly_summary_full transactions_two_months)
                   = [400, 200, 50, 650]"
    by code_simp
  from col sum0 months totals aging monthly show ?thesis by blast
qed

subsection \<open>Share of the provider-visit rows\<close>







subsection \<open>Rows with an unparseable claim date\<close>











subsection \<open>The ERA section within the run\<close>














subsection \<open>Running the ERA normalization again\<close>















end
